theory Spec2Isabelle
  imports Complex_Main "HOL-Library.Word"
begin

text \<open>
  The envelope-processing core of the GitHub technology agent (\<open>GitHubAgent\<close>): the
  router \<open>processEnvelope\<close>, the utterance handler, the classifier, the rate-limited
  search client and the analyzer that renders the report. Private methods keep their
  names without the leading underscore (\<open>_handleTechQuery\<close> is \<open>handleTechQuery\<close>); an
  \<open>async\<close> method is a function from the agent's state to its result and the state it
  leaves, and what it throws is the \<open>Inl\<close> of a sum.
\<close>

section \<open>JavaScript strings and numbers\<close>

text \<open>
  A JavaScript string is a sequence of UTF-16 code units; \<open>length\<close>, \<open>substring\<close> and
  \<open>includes\<close> count code units. ASCII literals of the source are written \<open>js ''...''\<close>;
  the few non-ASCII characters of its literals are given by their code units.
\<close>

type_synonym jsstring = "16 word list"

definition js :: "string \<Rightarrow> jsstring" where
  "js s = map (\<lambda>c. of_nat (of_char c)) s"

definition nl :: jsstring where
  "nl = [10]"

definition wrench :: jsstring where
  \<comment> \<open>U+1F527, the prefix of every fixed reply text\<close>
  "wrench = [0xD83D, 0xDD27]"

definition star :: jsstring where
  \<comment> \<open>U+2B50\<close>
  "star = [0x2B50]"

definition fork :: jsstring where
  \<comment> \<open>U+1F374\<close>
  "fork = [0xD83C, 0xDF74]"

definition bullet :: jsstring where
  \<comment> \<open>U+2022\<close>
  "bullet = [0x2022]"

text \<open>\<open>s.includes(p)\<close>: \<open>p\<close> occurs in \<open>s\<close> as a contiguous run of code units.\<close>

fun includesStr :: "jsstring \<Rightarrow> jsstring \<Rightarrow> bool" where
  "includesStr [] p = (p = [])"
| "includesStr (c # cs) p = (take (length p) (c # cs) = p \<or> includesStr cs p)"

text \<open>\<open>x || d\<close> on a string that may be \<open>null\<close>: \<open>null\<close> and the empty string are falsy.\<close>

definition orElse :: "jsstring option \<Rightarrow> jsstring \<Rightarrow> jsstring" where
  "orElse x d = (case x of None \<Rightarrow> d | Some s \<Rightarrow> if s = [] then d else s)"

text \<open>The decimal rendering of a count inside a template literal.\<close>

fun showNat :: "nat \<Rightarrow> jsstring" where
  "showNat n = (if n < 10 then [of_nat (48 + n)]
                else showNat (n div 10) @ [of_nat (48 + n mod 10)])"

declare showNat.simps [simp del]

text \<open>
  \<open>Math.round(a / n)\<close> for integers \<open>a\<close> and \<open>n > 0\<close>: the nearest integer, a tie
  going up. (The double \<open>a / n\<close> is on the same side of every half-integer as the
  exact quotient as long as \<open>a\<close> stays far below \<open>2^51\<close>, which star counts do.)
\<close>

definition math_round_div :: "int \<Rightarrow> nat \<Rightarrow> int" where
  "math_round_div a n = (2 * a + int n) div (2 * int n)"

section \<open>The platform and the network\<close>

text \<open>
  What the code takes from its runtime is a parameter of the model: the locale's number
  format, Unicode lower-casing, the date parser (\<open>None\<close> is an invalid date, else
  milliseconds since the epoch), what the search endpoint answers to a query issued at a
  time, how long that takes, and how late a timer fires.

  A body that parses is a search response whose items have the fields of the interface
  \<open>GitHubRepo\<close>; \<open>description\<close> and \<open>language\<close> may be \<open>null\<close> and \<open>items\<close> may be
  missing, as the code provides for.
\<close>

record GitHubRepo =
  name :: jsstring
  description :: "jsstring option"
  stargazers_count :: int
  forks_count :: int
  language :: "jsstring option"
  updated_at :: jsstring
  html_url :: jsstring

record GitHubSearchResponse =
  total_count :: int
  items :: "GitHubRepo list option"

datatype json_outcome =
    BadJson jsstring  \<comment> \<open>\<open>response.json()\<close> rejects, with this message\<close>
  | Json GitHubSearchResponse

datatype fetch_outcome =
    Rejected jsstring  \<comment> \<open>\<open>fetch\<close> rejects, with this message\<close>
  | Response bool nat json_outcome  \<comment> \<open>\<open>ok\<close>, \<open>status\<close>, body\<close>

record world =
  toLocaleString :: "int \<Rightarrow> jsstring"
  toLowerCase :: "jsstring \<Rightarrow> jsstring"
  parseDate :: "jsstring \<Rightarrow> int option"
  fetch :: "jsstring \<Rightarrow> nat \<Rightarrow> int \<Rightarrow> fetch_outcome"
  latency :: "jsstring \<Rightarrow> int \<Rightarrow> nat"
  timerLate :: "int \<Rightarrow> nat"

section \<open>The analyzer\<close>

subsection \<open>Repository listing\<close>

definition formatRepo :: "world \<Rightarrow> nat \<Rightarrow> GitHubRepo \<Rightarrow> jsstring" where
  "formatRepo w index repo =
     (let stars = toLocaleString w (stargazers_count repo);
          forks = toLocaleString w (forks_count repo);
          updated = take 10 (updated_at repo);
          description0 = orElse (description repo) (js ''No description'');
          description1 = (if length description0 > 100
                          then take 100 description0 @ js ''...'' else description0)
      in js ''**'' @ showNat (index + 1) @ js ''. '' @ name repo @ js ''** ('' @ stars
           @ js '' '' @ star @ js '', '' @ forks @ js '' '' @ fork @ js '')'' @ nl
         @ js ''   Language: '' @ orElse (language repo) (js ''Unknown'')
           @ js '' | Updated: '' @ updated @ nl
         @ js ''   Description: '' @ description1 @ nl
         @ js ''   URL: '' @ html_url repo @ nl @ nl)"

fun formatRepos :: "world \<Rightarrow> nat \<Rightarrow> GitHubRepo list \<Rightarrow> jsstring \<Rightarrow> jsstring" where
  "formatRepos w index [] result = result"
| "formatRepos w index (repo # rest) result =
     formatRepos w (index + 1) rest (result @ formatRepo w index repo)"

definition formatRepositoryData :: "world \<Rightarrow> GitHubRepo list \<Rightarrow> jsstring" where
  "formatRepositoryData w repositories =
     formatRepos w 0 repositories
       (js ''**Top '' @ showNat (length repositories) @ js '' Repositories:**'' @ nl)"

subsection \<open>Adoption analysis\<close>

datatype adoption = VeryHigh | High | Moderate | Emerging | Niche

fun adoptionText :: "adoption \<Rightarrow> jsstring" where
  "adoptionText VeryHigh = js ''Very High''"
| "adoptionText High = js ''High''"
| "adoptionText Moderate = js ''Moderate''"
| "adoptionText Emerging = js ''Emerging''"
| "adoptionText Niche = js ''Niche''"

definition adoptionLevel :: "int \<Rightarrow> adoption" where
  "adoptionLevel totalCount =
     (if totalCount > 50000 then VeryHigh
      else if totalCount > 10000 then High
      else if totalCount > 1000 then Moderate
      else if totalCount > 100 then Emerging
      else Niche)"

text \<open>
  The \<open>languages\<close> object: its keys in insertion order, each counted from 1. That is
  the order \<open>Object.entries\<close> lists them in and the count the code reaches for language
  names that are neither array indices, which an object lists first, nor names of
  members of \<open>Object.prototype\<close>, which the lookup would find before the first count.
\<close>

fun countLanguage :: "(jsstring \<times> nat) list \<Rightarrow> jsstring \<Rightarrow> (jsstring \<times> nat) list" where
  "countLanguage [] l = [(l, 1)]"
| "countLanguage ((k, c) # kvs) l =
     (if k = l then (k, c + 1) # kvs else (k, c) # countLanguage kvs l)"

fun countLanguages :: "(jsstring \<times> nat) list \<Rightarrow> GitHubRepo list \<Rightarrow> (jsstring \<times> nat) list" where
  "countLanguages languages [] = languages"
| "countLanguages languages (repo # rest) =
     countLanguages
       (case language repo of
          None \<Rightarrow> languages
        | Some l \<Rightarrow> if l = [] then languages else countLanguage languages l) rest"

definition topLanguages :: "(jsstring \<times> nat) list \<Rightarrow> (jsstring \<times> nat) list" where
  \<comment> \<open>\<open>sort(([,a], [,b]) => b - a).slice(0, 3)\<close>; the sort is stable\<close>
  "topLanguages languages = take 3 (sort_key (\<lambda>(lang, count). - int count) languages)"

definition languageEntry :: "jsstring \<times> nat \<Rightarrow> jsstring" where
  "languageEntry e = (case e of (lang, count) \<Rightarrow> lang @ js '' ('' @ showNat count @ js '')'')"

fun join :: "jsstring \<Rightarrow> jsstring list \<Rightarrow> jsstring" where
  "join sep [] = []"
| "join sep [x] = x"
| "join sep (x # y # zs) = x @ sep @ join sep (y # zs)"

record TrendMetrics =
  totalStars :: int
  totalForks :: int
  avgStars :: int
  adoption :: adoption
  languages :: "(jsstring \<times> nat) list"

definition trendMetrics :: "int \<Rightarrow> GitHubRepo list \<Rightarrow> TrendMetrics" where
  "trendMetrics totalCount its =
     (let totalStars = foldl (\<lambda>sum repo. sum + stargazers_count repo) 0 its;
          totalForks = foldl (\<lambda>sum repo. sum + forks_count repo) 0 its
      in \<lparr> totalStars = totalStars, totalForks = totalForks,
           avgStars = math_round_div totalStars (length its),
           adoption = adoptionLevel totalCount,
           languages = countLanguages [] its \<rparr>)"

definition renderTrends :: "world \<Rightarrow> int \<Rightarrow> TrendMetrics \<Rightarrow> jsstring" where
  "renderTrends w totalCount m =
     js ''**Technology Adoption Analysis:**'' @ nl
     @ bullet @ js '' Total repositories: '' @ toLocaleString w totalCount @ nl
     @ bullet @ js '' Adoption level: '' @ adoptionText (adoption m) @ nl
     @ bullet @ js '' Average stars (top repos): '' @ toLocaleString w (avgStars m) @ nl
     @ bullet @ js '' Total community engagement: '' @ toLocaleString w (totalStars m)
       @ js '' stars, '' @ toLocaleString w (totalForks m) @ js '' forks'' @ nl
     @ (if length (languages m) > 0
        then bullet @ js '' Popular languages: ''
             @ join (js '', '') (map languageEntry (topLanguages (languages m))) @ nl
        else [])
     @ nl"

text \<open>
  Called with \<open>data.total_count\<close> and \<open>data.items\<close>, once the caller has found
  \<open>data.items\<close> to be an array.
\<close>

definition analyzeTechnologyTrends :: "world \<Rightarrow> int \<Rightarrow> GitHubRepo list \<Rightarrow> jsstring" where
  "analyzeTechnologyTrends w totalCount its =
     (if its = [] then [] else renderTrends w totalCount (trendMetrics totalCount its))"

subsection \<open>Activity analysis\<close>

datatype activity = VeryActive | Active | ModerateActivity | Low

fun activityText :: "activity \<Rightarrow> jsstring" where
  "activityText VeryActive = js ''Very Active''"
| "activityText Active = js ''Active''"
| "activityText ModerateActivity = js ''Moderate''"
| "activityText Low = js ''Low''"

text \<open>
  \<open>Math.floor((now - updated) / 86400000)\<close>; \<open>None\<close> when the item has no
  \<open>updated_at\<close> (the guard of the loop) or the date is invalid (every comparison with
  \<open>NaN\<close> is false).
\<close>

definition daysAgo :: "world \<Rightarrow> int \<Rightarrow> GitHubRepo \<Rightarrow> int option" where
  "daysAgo w currentDate repo =
     (if updated_at repo = [] then None
      else case parseDate w (updated_at repo) of
             None \<Rightarrow> None
           | Some updatedDate \<Rightarrow> Some ((currentDate - updatedDate) div (1000 * 60 * 60 * 24)))"

definition withinDays :: "int \<Rightarrow> int option \<Rightarrow> bool" where
  "withinDays days d = (case d of None \<Rightarrow> False | Some n \<Rightarrow> n \<le> days)"

text \<open>The loop over the items, with its two counters \<open>(recentUpdates, veryRecentUpdates)\<close>.\<close>

fun countUpdates :: "world \<Rightarrow> int \<Rightarrow> GitHubRepo list \<Rightarrow> nat \<times> nat \<Rightarrow> nat \<times> nat" where
  "countUpdates w currentDate [] counters = counters"
| "countUpdates w currentDate (repo # rest) (recentUpdates, veryRecentUpdates) =
     (let d = daysAgo w currentDate repo;
          veryRecentUpdates' = (if withinDays 30 d then veryRecentUpdates + 1 else veryRecentUpdates);
          recentUpdates' = (if withinDays 90 d then recentUpdates + 1 else recentUpdates)
      in countUpdates w currentDate rest (recentUpdates', veryRecentUpdates'))"

text \<open>
  The ratios are quotients of two small counts, compared with the literals 0.7, 0.5 and
  0.3: the double quotient exceeds the double literal exactly when the exact quotient
  exceeds the decimal fraction, so the comparison is made on rationals.
\<close>

definition activityLevel :: "nat \<Rightarrow> nat \<Rightarrow> nat \<Rightarrow> activity" where
  "activityLevel recentUpdates veryRecentUpdates n =
     (let veryRecentRatio = (of_nat veryRecentUpdates / of_nat n :: rat);
          recentRatio = (of_nat recentUpdates / of_nat n :: rat)
      in if veryRecentRatio > 7 / 10 then VeryActive
         else if recentRatio > 5 / 10 then Active
         else if recentRatio > 3 / 10 then ModerateActivity
         else Low)"

definition analyzeRecentActivity :: "world \<Rightarrow> int \<Rightarrow> GitHubRepo list \<Rightarrow> jsstring" where
  "analyzeRecentActivity w currentDate repositories =
     (if repositories = [] then []
      else case countUpdates w currentDate repositories (0, 0) of
        (recentUpdates, veryRecentUpdates) \<Rightarrow>
          (let n = length repositories;
               level = activityLevel recentUpdates veryRecentUpdates n
           in js ''**Development Activity:**'' @ nl
              @ bullet @ js '' Recently updated (30 days): '' @ showNat veryRecentUpdates
                @ js ''/'' @ showNat n @ js '' repositories'' @ nl
              @ bullet @ js '' Active projects (90 days): '' @ showNat recentUpdates
                @ js ''/'' @ showNat n @ js '' repositories'' @ nl
              @ bullet @ js '' Overall activity level: '' @ activityText level @ nl
              @ bullet @ js '' Community health: ''
                @ (if level \<in> {VeryActive, Active} then js ''Strong'' else js ''Moderate'')
                @ js '' developer engagement'' @ nl @ nl))"

section \<open>The agent's state\<close>

text \<open>
  The only field the agent mutates is \<open>lastRequestTime\<close>. \<open>clock\<close> is what
  \<open>Date.now()\<close> returns. Two logs record what the claims speak of and the code does not
  store: the searches issued (time, query, page size) and the texts given to the
  classifier.
\<close>

record agent_state =
  clock :: int
  lastRequestTime :: int
  requests :: "(int \<times> jsstring \<times> nat) list"
  classified :: "jsstring list"

subsection \<open>Rate limiter\<close>

definition rateLimitDelay :: int where
  "rateLimitDelay = 2000"

text \<open>The part of \<open>_rateLimit\<close> that runs before its \<open>await\<close>.\<close>

definition waitTime :: "int \<Rightarrow> int \<Rightarrow> int" where
  "waitTime now lastRequest =
     (let timeSinceLastRequest = now - lastRequest
      in rateLimitDelay - timeSinceLastRequest)"

text \<open>
  \<open>setTimeout(resolve, ms)\<close>, awaited: the timer fires when it is due or later. This is
  the timer as documented; by the reading of \<open>Date.now()\<close> a timer of Node can fire up
  to a millisecond early, which the facts below about one caller at a time leave out.
\<close>

definition sleep :: "world \<Rightarrow> int \<Rightarrow> agent_state \<Rightarrow> agent_state" where
  "sleep w ms st = (let due = clock st + ms in st\<lparr>clock := due + int (timerLate w due)\<rparr>)"

text \<open>The part of \<open>_rateLimit\<close> that runs after its \<open>await\<close>.\<close>

definition recordRequestTime :: "agent_state \<Rightarrow> agent_state" where
  "recordRequestTime st = st\<lparr>lastRequestTime := clock st\<rparr>"

text \<open>\<open>_rateLimit\<close> when nothing else runs during its wait.\<close>

definition rateLimit :: "world \<Rightarrow> agent_state \<Rightarrow> agent_state" where
  "rateLimit w st =
     (let now = clock st;
          wt = waitTime now (lastRequestTime st)
      in recordRequestTime (if wt > 0 then sleep w wt st else st))"

subsection \<open>Search client\<close>

datatype search_error =
    ApiError nat
  | NetworkError jsstring
  | SyntaxError jsstring

fun message :: "search_error \<Rightarrow> jsstring" where
  "message (ApiError status) = js ''GitHub API error: '' @ showNat status"
| "message (NetworkError m) = m"
| "message (SyntaxError m) = m"

definition noRepositories :: "jsstring \<Rightarrow> jsstring" where
  "noRepositories technology =
     js ''**GitHub Technology Research for: '' @ technology @ js ''**'' @ nl @ nl
     @ js ''No relevant repositories found.''"

definition timeoutMessage :: "jsstring \<Rightarrow> jsstring" where
  "timeoutMessage technology =
     js ''**GitHub Technology Research for: '' @ technology @ js ''**'' @ nl @ nl
     @ js ''Request timeout - GitHub may be experiencing high load. Technology data available but slower than expected.''"

definition trendsReport :: "world \<Rightarrow> jsstring \<Rightarrow> int \<Rightarrow> int \<Rightarrow> GitHubRepo list \<Rightarrow> jsstring" where
  "trendsReport w technology currentDate totalCount its =
     js ''**GitHub Technology Trends for: '' @ technology @ js ''**'' @ nl @ nl
     @ formatRepositoryData w its
     @ analyzeTechnologyTrends w totalCount its
     @ analyzeRecentActivity w currentDate its"

text \<open>
  The \<open>try\<close> block of \<open>_searchGitHub\<close>: the request is issued at the current time and
  answered \<open>latency\<close> later; the activity analysis reads the clock then.
\<close>

definition searchTry ::
  "world \<Rightarrow> jsstring \<Rightarrow> nat \<Rightarrow> agent_state \<Rightarrow> (search_error + jsstring) \<times> agent_state" where
  "searchTry w technology maxResults st =
     (let issued = clock st;
          st1 = st\<lparr>clock := issued + int (latency w technology issued),
                   requests := requests st @ [(issued, technology, maxResults)]\<rparr>
      in case fetch w technology maxResults issued of
           Rejected m \<Rightarrow> (Inl (NetworkError m), st1)
         | Response ok status body \<Rightarrow>
             if \<not> ok then (Inl (ApiError status), st1)
             else (case body of
                     BadJson m \<Rightarrow> (Inl (SyntaxError m), st1)
                   | Json data \<Rightarrow>
                       (case items data of
                          None \<Rightarrow> (Inr (noRepositories technology), st1)
                        | Some its \<Rightarrow>
                            if length its = 0 then (Inr (noRepositories technology), st1)
                            else (Inr (trendsReport w technology (clock st1)
                                         (total_count data) its), st1))))"

definition searchGitHub ::
  "world \<Rightarrow> jsstring \<Rightarrow> nat \<Rightarrow> agent_state \<Rightarrow> (search_error + jsstring) \<times> agent_state" where
  "searchGitHub w technology maxResults st =
     (case searchTry w technology maxResults (rateLimit w st) of
        (Inr result, st') \<Rightarrow> (Inr result, st')
      | (Inl error, st') \<Rightarrow>
          if includesStr (message error) (js ''timeout'')
          then (Inr (timeoutMessage technology), st')
          else (Inl error, st'))"

subsection \<open>Classifier\<close>

definition techIndicators :: "jsstring list" where
  "techIndicators = map js
     [''technology'', ''framework'', ''library'', ''software'', ''programming'',
      ''development'', ''developer'', ''code'', ''github'', ''open source'',
      ''javascript'', ''python'', ''react'', ''nodejs'', ''django'', ''flask'',
      ''vue'', ''angular'', ''typescript'', ''rust'', ''go'', ''kotlin'',
      ''adoption'', ''popular'', ''trending'', ''tools'', ''stack'']"

definition isTechQuery :: "world \<Rightarrow> jsstring \<Rightarrow> bool" where
  "isTechQuery w query =
     (let queryLower = toLowerCase w query
      in list_ex (\<lambda>indicator. includesStr queryLower indicator) techIndicators)"

section \<open>Envelopes and events\<close>

text \<open>
  An array element of \<open>tokens\<close> is \<open>null\<close> or an object whose \<open>value\<close> may be
  missing. The \<open>tokens\<close> field is reached through a chain of optional accesses: it is
  absent when any link is; otherwise it is an array, or a value that is no array and has
  the given \<open>length\<close> (0 when it has none).
\<close>

datatype token = NullToken | Token "jsstring option"

datatype tokens_field = TokensAbsent | TokensArray "token list" | TokensNonArray nat

record Address =
  to_speakerUri :: "jsstring option"
  to_serviceUrl :: "jsstring option"

record Event =
  eventType :: jsstring
  to :: "Address option"
  tokens :: tokens_field

record Sender =
  sender_speakerUri :: jsstring
  sender_serviceUrl :: "jsstring option"

record 'e Envelope =
  schema_version :: jsstring
  conversation_id :: jsstring
  sender :: Sender
  events :: "'e list"

record Manifest =
  speakerUri :: jsstring
  serviceUrl :: jsstring
  organization :: jsstring
  conversationalName :: jsstring
  synopsis :: jsstring
  keyphrases :: "jsstring list"
  descriptions :: "jsstring list"

datatype OutEvent =
    TextUtterance jsstring jsstring jsstring  \<comment> \<open>speaker, text, addressee\<close>
  | PublishManifests jsstring "Manifest list"  \<comment> \<open>addressee, servicing manifests\<close>

definition createGitHubAgent ::
  "jsstring \<Rightarrow> jsstring \<Rightarrow> jsstring option \<Rightarrow> jsstring option \<Rightarrow> Manifest" where
  "createGitHubAgent spk url nm org =
     \<lparr> speakerUri = spk, serviceUrl = url,
       organization = (case org of None \<Rightarrow> js ''OpenFloor Research'' | Some x \<Rightarrow> x),
       conversationalName = (case nm of None \<Rightarrow> js ''GitHub Technology Agent'' | Some x \<Rightarrow> x),
       synopsis = js ''Technology trends specialist for analyzing GitHub repositories and development adoption'',
       keyphrases = map js
         [''technology'', ''github'', ''framework'', ''library'', ''programming'',
          ''development'', ''trends'', ''adoption'', ''repositories'', ''open source''],
       descriptions = map js
         [''Analyze GitHub repositories for technology adoption trends'',
          ''Research programming frameworks and library popularity'',
          ''Assess development activity and community engagement metrics''] \<rparr>"

section \<open>Utterance handling\<close>

datatype error = TypeError | SearchFailed search_error

definition needTechnology :: jsstring where
  "needTechnology = wrench @ js '' I need a technology or framework name to research on GitHub!''"

definition notTechQuery :: jsstring where
  "notTechQuery = wrench @ js '' I specialize in technology trends. Try queries about programming frameworks, libraries, tools, or development technologies.''"

definition apology :: jsstring where
  "apology = wrench @ js '' I encountered an error while searching GitHub. Please try again with a different technology name.''"

definition reply :: "Manifest \<Rightarrow> Event Envelope \<Rightarrow> jsstring \<Rightarrow> OutEvent" where
  "reply agent inEnvelope text =
     TextUtterance (speakerUri agent) text (sender_speakerUri (sender inEnvelope))"

text \<open>\<open>tokens.map(token => token.value)\<close>: reading \<open>value\<close> of \<open>null\<close> throws.\<close>

fun tokenValues :: "token list \<Rightarrow> error + jsstring option list" where
  "tokenValues [] = Inr []"
| "tokenValues (NullToken # rest) = Inl TypeError"
| "tokenValues (Token v # rest) =
     (case tokenValues rest of Inl e \<Rightarrow> Inl e | Inr vs \<Rightarrow> Inr (v # vs))"

text \<open>\<open>join('')\<close>: a missing value contributes nothing.\<close>

definition joinValues :: "jsstring option list \<Rightarrow> jsstring" where
  "joinValues vs = concat (map (\<lambda>v. case v of None \<Rightarrow> [] | Some s \<Rightarrow> s) vs)"

text \<open>What follows the token check inside the \<open>try\<close> block of \<open>_handleTechQuery\<close>.\<close>

definition research ::
  "world \<Rightarrow> Manifest \<Rightarrow> Event Envelope \<Rightarrow> token list \<Rightarrow> agent_state
     \<Rightarrow> (error + OutEvent) \<times> agent_state" where
  "research w agent inEnvelope ts st =
     (case tokenValues ts of
        Inl e \<Rightarrow> (Inl e, st)
      | Inr vs \<Rightarrow>
          (let technology = joinValues vs;
               st1 = st\<lparr>classified := classified st @ [technology]\<rparr>
           in if \<not> isTechQuery w technology
              then (Inr (reply agent inEnvelope notTechQuery), st1)
              else (case searchGitHub w technology 5 st1 of
                      (Inl e, st2) \<Rightarrow> (Inl (SearchFailed e), st2)
                    | (Inr results, st2) \<Rightarrow> (Inr (reply agent inEnvelope results), st2))))"

text \<open>The \<open>try\<close> block of \<open>_handleTechQuery\<close>.\<close>

definition handleTechQueryTry ::
  "world \<Rightarrow> Manifest \<Rightarrow> Event \<Rightarrow> Event Envelope \<Rightarrow> agent_state
     \<Rightarrow> (error + OutEvent) \<times> agent_state" where
  "handleTechQueryTry w agent event inEnvelope st =
     (case tokens event of
        TokensAbsent \<Rightarrow> (Inr (reply agent inEnvelope needTechnology), st)
      | TokensNonArray n \<Rightarrow>
          if n = 0 then (Inr (reply agent inEnvelope needTechnology), st)
          else (Inl TypeError, st)
      | TokensArray ts \<Rightarrow>
          if length ts = 0 then (Inr (reply agent inEnvelope needTechnology), st)
          else research w agent inEnvelope ts st)"

definition handleTechQuery ::
  "world \<Rightarrow> Manifest \<Rightarrow> Event \<Rightarrow> Event Envelope \<Rightarrow> agent_state \<Rightarrow> OutEvent \<times> agent_state" where
  "handleTechQuery w agent event inEnvelope st =
     (case handleTechQueryTry w agent event inEnvelope st of
        (Inr responseEvent, st') \<Rightarrow> (responseEvent, st')
      | (Inl error, st') \<Rightarrow> (reply agent inEnvelope apology, st'))"

section \<open>Envelope router\<close>

definition addressedToMe :: "Manifest \<Rightarrow> Event \<Rightarrow> bool" where
  "addressedToMe agent event =
     (case to event of
        None \<Rightarrow> True
      | Some a \<Rightarrow> to_speakerUri a = Some (speakerUri agent)
                 \<or> to_serviceUrl a = Some (serviceUrl agent))"

text \<open>The protocol library's type guard: an utterance is an event of type \<open>utterance\<close>.\<close>

definition isUtteranceEvent :: "Event \<Rightarrow> bool" where
  "isUtteranceEvent event = (eventType event = js ''utterance'')"

text \<open>The body of the loop over the inbound events: the events it appends.\<close>

definition processEvent ::
  "world \<Rightarrow> Manifest \<Rightarrow> Event Envelope \<Rightarrow> Event \<Rightarrow> agent_state
     \<Rightarrow> OutEvent list \<times> agent_state" where
  "processEvent w agent inEnvelope event st =
     (if addressedToMe agent event \<and> isUtteranceEvent event
      then (case handleTechQuery w agent event inEnvelope st of
              (responseEvent, st') \<Rightarrow> ([responseEvent], st'))
      else if addressedToMe agent event \<and> eventType event = js ''getManifests''
      then ([PublishManifests (sender_speakerUri (sender inEnvelope)) [agent]], st)
      else ([], st))"

fun processEvents ::
  "world \<Rightarrow> Manifest \<Rightarrow> Event Envelope \<Rightarrow> Event list \<Rightarrow> OutEvent list \<Rightarrow> agent_state
     \<Rightarrow> OutEvent list \<times> agent_state" where
  "processEvents w agent inEnvelope [] responseEvents st = (responseEvents, st)"
| "processEvents w agent inEnvelope (event # rest) responseEvents st =
     (case processEvent w agent inEnvelope event st of
        (new, st') \<Rightarrow> processEvents w agent inEnvelope rest (responseEvents @ new) st')"

definition processEnvelope ::
  "world \<Rightarrow> Manifest \<Rightarrow> Event Envelope \<Rightarrow> agent_state \<Rightarrow> OutEvent Envelope \<times> agent_state" where
  "processEnvelope w agent inEnvelope st =
     (case processEvents w agent inEnvelope (events inEnvelope) [] st of
        (responseEvents, st') \<Rightarrow>
          (\<lparr> schema_version = schema_version inEnvelope,
             conversation_id = conversation_id inEnvelope,
             sender = \<lparr> sender_speakerUri = speakerUri agent,
                        sender_serviceUrl = Some (serviceUrl agent) \<rparr>,
             events = responseEvents \<rparr>, st'))"

section \<open>Concurrent requests\<close>

text \<open>
  The server handles the requests of different envelopes on one event loop: the code
  between two \<open>await\<close>s runs without interruption, and calls of \<open>_rateLimit\<close> interleave
  at its \<open>await\<close>. A call has not started, or is suspended at a timer due at a time, or
  has left \<open>_rateLimit\<close> and issued its request at a time. \<open>Enter\<close> runs a call up to its
  \<open>await\<close> (to its end when it need not wait), \<open>Wake\<close> runs it from the timer on, \<open>Tick\<close>
  lets time pass. A step that the event loop cannot take is \<open>None\<close>.
\<close>

datatype call = NotStarted | Sleeping int | Issued int

record server =
  shared :: agent_state
  calls :: "call list"

datatype action = Tick nat | Enter nat | Wake nat

fun step :: "action \<Rightarrow> server \<Rightarrow> server option" where
  "step (Tick ms) s = Some (s\<lparr>shared := (shared s)\<lparr>clock := clock (shared s) + int ms\<rparr>\<rparr>)"
| "step (Enter i) s =
     (if i < length (calls s) \<and> calls s ! i = NotStarted
      then (let now = clock (shared s);
                wt = waitTime now (lastRequestTime (shared s))
            in if wt > 0
               then Some (s\<lparr>calls := (calls s)[i := Sleeping (now + wt)]\<rparr>)
               else Some (s\<lparr>shared := recordRequestTime (shared s),
                            calls := (calls s)[i := Issued now]\<rparr>))
      else None)"
| "step (Wake i) s =
     (if i < length (calls s)
      then (case calls s ! i of
              Sleeping due \<Rightarrow>
                if due \<le> clock (shared s)
                then Some (s\<lparr>shared := recordRequestTime (shared s),
                             calls := (calls s)[i := Issued (clock (shared s))]\<rparr>)
                else None
            | _ \<Rightarrow> None)
      else None)"

fun run :: "action list \<Rightarrow> server \<Rightarrow> server option" where
  "run [] s = Some s"
| "run (a # as) s = (case step a s of None \<Rightarrow> None | Some s' \<Rightarrow> run as s')"

section \<open>Sample inputs\<close>

text \<open>The agent that \<open>github-server.ts\<close> creates, with the default service URL.\<close>

definition serverAgent :: Manifest where
  "serverAgent = createGitHubAgent (js ''tag:openfloor-research.com,2025:github-agent'')
     (js ''http://localhost:8080'') (Some (js ''GitHub Technology Analyst''))
     (Some (js ''OpenFloor Demo Corp''))"

definition asciiLower :: "jsstring \<Rightarrow> jsstring" where
  "asciiLower s = map (\<lambda>c. if 65 \<le> c \<and> c \<le> 90 then c + 32 else c) s"

definition plainNumber :: "int \<Rightarrow> jsstring" where
  "plainNumber i = (if i < 0 then js ''-'' @ showNat (nat (- i)) else showNat (nat i))"

definition sampleRepos :: "GitHubRepo list" where
  "sampleRepos =
     [\<lparr> name = js ''alpha'', description = Some (js ''first''), stargazers_count = 100,
        forks_count = 10, language = Some (js ''Go''),
        updated_at = js ''2025-12-20T00:00:00Z'', html_url = js ''https://github.com/x/alpha'' \<rparr>,
      \<lparr> name = js ''beta'', description = None, stargazers_count = 200,
        forks_count = 20, language = Some (js ''Go''),
        updated_at = js ''2025-11-01T00:00:00Z'', html_url = js ''https://github.com/x/beta'' \<rparr>,
      \<lparr> name = js ''gamma'', description = Some (js ''third''), stargazers_count = 300,
        forks_count = 30, language = Some (js ''Rust''),
        updated_at = js ''2025-06-01T00:00:00Z'', html_url = js ''https://github.com/x/gamma'' \<rparr>]"

definition sampleDates :: "jsstring \<Rightarrow> int option" where
  "sampleDates s =
     (if s = js ''2025-12-20T00:00:00Z'' then Some 1766188800000
      else if s = js ''2025-11-01T00:00:00Z'' then Some 1761955200000
      else if s = js ''2025-06-01T00:00:00Z'' then Some 1748736000000
      else None)"

definition sampleFetch :: "jsstring \<Rightarrow> nat \<Rightarrow> int \<Rightarrow> fetch_outcome" where
  "sampleFetch q per_page issued =
     (if q = js ''rust'' then Response True 200 (Json \<lparr> total_count = 12000, items = Some sampleRepos \<rparr>)
      else if q = js ''kotlin'' then Response True 200 (Json \<lparr> total_count = 0, items = Some [] \<rparr>)
      else if q = js ''django'' then Response False 403 (BadJson [])
      else Rejected (js ''fetch failed''))"

definition sampleWorld :: world where
  "sampleWorld =
     \<lparr> toLocaleString = plainNumber, toLowerCase = asciiLower, parseDate = sampleDates,
       fetch = sampleFetch, latency = (\<lambda>q issued. 150), timerLate = (\<lambda>due. 0) \<rparr>"

definition sampleState :: agent_state where
  "sampleState = \<lparr> clock = 1767225600000, lastRequestTime = 0, requests = [], classified = [] \<rparr>"

definition utterance :: "Address option \<Rightarrow> tokens_field \<Rightarrow> Event" where
  "utterance a ts = \<lparr> eventType = js ''utterance'', to = a, tokens = ts \<rparr>"

definition sampleEnvelope :: "Event list \<Rightarrow> Event Envelope" where
  "sampleEnvelope es =
     \<lparr> schema_version = js ''1.0.0'', conversation_id = js ''conv-1'',
       sender = \<lparr> sender_speakerUri = js ''tag:example.com,2025:user'', sender_serviceUrl = None \<rparr>,
       events = es \<rparr>"

definition malformedEvent :: Event where
  "malformedEvent = utterance None (TokensArray [Token (Some (js ''golang'')), NullToken])"

definition failingEvent :: Event where
  "failingEvent = utterance None (TokensArray [Token (Some (js ''go'')), Token None, Token (Some (js ''lang''))])"

definition cookingEvent :: Event where
  "cookingEvent = utterance None (TokensArray [Token (Some (js ''cooking recipes''))])"

definition recentRepo :: GitHubRepo where
  "recentRepo = \<lparr> name = js ''alpha'', description = Some (js ''first''), stargazers_count = 100,
        forks_count = 10, language = Some (js ''Go''),
        updated_at = js ''2025-12-20T00:00:00Z'', html_url = js ''https://github.com/x/alpha'' \<rparr>"

definition staleRepo :: GitHubRepo where
  "staleRepo = \<lparr> name = js ''gamma'', description = Some (js ''third''), stargazers_count = 300,
        forks_count = 30, language = Some (js ''Rust''),
        updated_at = js ''2025-06-01T00:00:00Z'', html_url = js ''https://github.com/x/gamma'' \<rparr>"

definition otherAddress :: Address where
  "otherAddress = \<lparr> to_speakerUri = Some (js ''tag:example.com,2025:other-agent''),
                    to_serviceUrl = Some (js ''http://localhost:8080'') \<rparr>"

definition getManifests :: "Address option \<Rightarrow> Event" where
  "getManifests a = \<lparr> eventType = js ''getManifests'', to = a, tokens = TokensAbsent \<rparr>"

definition strangerAddress :: Address where
  "strangerAddress = \<lparr> to_speakerUri = Some (js ''tag:example.com,2025:other-agent''),
                       to_serviceUrl = Some (js ''http://localhost:9090'') \<rparr>"

section \<open>Spacing of the issued searches\<close>

text \<open>
  A list of issue times is spaced when each is at least the minimum interval after the one
  before. The invariant of the rate limiter between two calls: the logged searches are
  spaced and none was issued after the recorded time of the last request.
\<close>

fun spaced :: "int list \<Rightarrow> bool" where
  "spaced [] = True"
| "spaced [t] = True"
| "spaced (t # u # rest) = (t + rateLimitDelay \<le> u \<and> spaced (u # rest))"

definition limiterInv :: "agent_state \<Rightarrow> bool" where
  "limiterInv st =
     (spaced (map fst (requests st))
      \<and> (requests st \<noteq> [] \<longrightarrow> fst (last (requests st)) \<le> lastRequestTime st))"

section \<open>Auxiliary facts\<close>

subsection \<open>Evaluating decimal numerals\<close>

lemma showNat_digit: "n < 10 \<Longrightarrow> showNat n = [of_nat (48 + n)]"
  by (simp add: showNat.simps)

lemma showNat_step: "10 \<le> n \<Longrightarrow> showNat n = showNat (n div 10) @ [of_nat (48 + n mod 10)]"
  by (subst showNat.simps) simp

lemma go_rust: "js ''Go'' \<noteq> js ''Rust''" "js ''Go'' \<noteq> []" "js ''Rust'' \<noteq> []"
  by (simp_all add: js_def)

subsection \<open>The event loop of the router\<close>

lemma processEvents_acc:
  "processEvents w agent env es acc st =
     (acc @ fst (processEvents w agent env es [] st), snd (processEvents w agent env es [] st))"
proof (induction es arbitrary: acc st)
  case Nil
  then show ?case by simp
next
  case (Cons e es)
  obtain new st' where pe: "processEvent w agent env e st = (new, st')"
    by (cases "processEvent w agent env e st")
  have "processEvents w agent env (e # es) acc st = processEvents w agent env es (acc @ new) st'"
    by (simp add: pe)
  also have "\<dots> = ((acc @ new) @ fst (processEvents w agent env es [] st'),
                     snd (processEvents w agent env es [] st'))"
    by (rule Cons.IH)
  finally have a: "processEvents w agent env (e # es) acc st =
      (acc @ new @ fst (processEvents w agent env es [] st'),
       snd (processEvents w agent env es [] st'))" by simp
  have "processEvents w agent env (e # es) [] st = processEvents w agent env es new st'"
    by (simp add: pe)
  also have "\<dots> = (new @ fst (processEvents w agent env es [] st'),
                     snd (processEvents w agent env es [] st'))"
    by (rule Cons.IH)
  finally have b: "processEvents w agent env (e # es) [] st =
      (new @ fst (processEvents w agent env es [] st'),
       snd (processEvents w agent env es [] st'))" .
  show ?case by (simp only: a b fst_conv snd_conv)
qed

lemma processEvents_Cons:
  "processEvent w agent env e st = (new, st1) \<Longrightarrow>
   processEvents w agent env es [] st1 = (rs, st2) \<Longrightarrow>
   processEvents w agent env (e # es) [] st = (new @ rs, st2)"
  using processEvents_acc [of w agent env es new st1] by simp

lemma processEvents_append:
  "processEvents w agent env xs [] st = (rs1, st1) \<Longrightarrow>
   processEvents w agent env ys [] st1 = (rs2, st2) \<Longrightarrow>
   processEvents w agent env (xs @ ys) [] st = (rs1 @ rs2, st2)"
proof (induction xs arbitrary: st rs1)
  case Nil
  then show ?case by simp
next
  case (Cons e xs)
  obtain new st' where pe: "processEvent w agent env e st = (new, st')"
    by (cases "processEvent w agent env e st")
  obtain rs' st'' where r: "processEvents w agent env xs [] st' = (rs', st'')"
    by (cases "processEvents w agent env xs [] st'")
  from processEvents_Cons [OF pe r] Cons.prems(1) have eq: "rs1 = new @ rs'" "st1 = st''"
    by simp_all
  from Cons.IH [OF _ Cons.prems(2)] r eq
  have "processEvents w agent env (xs @ ys) [] st' = (rs' @ rs2, st2)" by simp
  from processEvents_Cons [OF pe this] eq show ?case by simp
qed

lemma handleTechQuery_failure:
  "handleTechQueryTry w agent event inEnvelope st = (Inl err, st') \<Longrightarrow>
   handleTechQuery w agent event inEnvelope st = (reply agent inEnvelope apology, st')"
  by (simp add: handleTechQuery_def)

lemma getManifests_not_utterance: "js ''getManifests'' \<noteq> js ''utterance''"
  by (simp add: js_def)

lemma handleTechQuery_is_reply:
  "\<exists>msg. fst (handleTechQuery w agent event env st) = reply agent env msg"
  by (auto simp: handleTechQuery_def handleTechQueryTry_def research_def Let_def
           split: prod.splits sum.splits tokens_field.splits)

subsection \<open>The log of issued searches\<close>

lemma rateLimit_requests: "requests (rateLimit w st) = requests st"
  by (simp add: rateLimit_def recordRequestTime_def sleep_def Let_def)

lemma searchTry_requests:
  "requests (snd (searchTry w technology n st)) = requests st @ [(clock st, technology, n)]"
  by (simp add: searchTry_def Let_def split: fetch_outcome.splits json_outcome.splits option.splits)

lemma searchGitHub_requests:
  "requests (snd (searchGitHub w technology n st))
     = requests st @ [(clock (rateLimit w st), technology, n)]"
proof -
  have "snd (searchGitHub w technology n st) = snd (searchTry w technology n (rateLimit w st))"
    by (simp add: searchGitHub_def split: prod.splits sum.splits)
  then show ?thesis by (simp add: searchTry_requests rateLimit_requests)
qed

lemma research_requests:
  "\<exists>new. requests (snd (research w agent env ts st)) = requests st @ new
         \<and> (\<forall>r \<in> set new. isTechQuery w (fst (snd r)))"
proof (cases "tokenValues ts")
  case (Inl e)
  then show ?thesis by (simp add: research_def)
next
  case (Inr vs)
  show ?thesis
  proof (cases "isTechQuery w (joinValues vs)")
    case False
    with Inr show ?thesis by (simp add: research_def Let_def)
  next
    case True
    let ?st1 = "st\<lparr>classified := classified st @ [joinValues vs]\<rparr>"
    have "snd (research w agent env ts st) = snd (searchGitHub w (joinValues vs) 5 ?st1)"
      using Inr True by (simp add: research_def Let_def split: prod.splits sum.splits)
    then have "requests (snd (research w agent env ts st))
        = requests st @ [(clock (rateLimit w ?st1), joinValues vs, 5)]"
      by (simp add: searchGitHub_requests)
    with True show ?thesis by simp
  qed
qed

lemma handleTechQuery_requests:
  "\<exists>new. requests (snd (handleTechQuery w agent event env st)) = requests st @ new
         \<and> (\<forall>r \<in> set new. isTechQuery w (fst (snd r)))"
proof -
  have s: "snd (handleTechQuery w agent event env st) = snd (handleTechQueryTry w agent event env st)"
    by (simp add: handleTechQuery_def split: prod.splits sum.splits)
  show ?thesis
  proof (cases "\<exists>ts. tokens event = TokensArray ts \<and> length ts \<noteq> 0")
    case True
    then obtain ts where "tokens event = TokensArray ts" "length ts \<noteq> 0" by blast
    then have "handleTechQueryTry w agent event env st = research w agent env ts st"
      by (simp add: handleTechQueryTry_def)
    with s research_requests [of w agent env ts st] show ?thesis by simp
  next
    case False
    then have "snd (handleTechQueryTry w agent event env st) = st"
      by (auto simp: handleTechQueryTry_def split: tokens_field.splits)
    with s show ?thesis by simp
  qed
qed

subsection \<open>Counting recent updates\<close>

lemma countUpdates_counts:
  "countUpdates w now repos (r, v) =
     (r + length (filter (\<lambda>repo. withinDays 90 (daysAgo w now repo)) repos),
      v + length (filter (\<lambda>repo. withinDays 30 (daysAgo w now repo)) repos))"
  by (induction repos arbitrary: r v) (simp_all add: Let_def)

lemma withinDays_nested: "withinDays 30 d \<Longrightarrow> withinDays 90 d"
  by (cases d) (simp_all add: withinDays_def)

lemma filter_length_mono:
  "(\<And>x. P x \<Longrightarrow> Q x) \<Longrightarrow> length (filter P xs) \<le> length (filter Q xs)"
  by (induction xs) auto

subsection \<open>The sample inputs\<close>

lemma cooking_out_of_domain: "\<not> isTechQuery sampleWorld (js ''cooking recipes'')"
  by (simp add: isTechQuery_def sampleWorld_def asciiLower_def techIndicators_def js_def)

lemma golang_in_domain: "isTechQuery sampleWorld (js ''golang'')"
  by (simp add: isTechQuery_def sampleWorld_def asciiLower_def techIndicators_def js_def)

lemma golang_fails:
  "handleTechQueryTry sampleWorld serverAgent failingEvent env sampleState
   = (Inl (SearchFailed (NetworkError (js ''fetch failed''))),
      \<lparr> clock = 1767225600150, lastRequestTime = 1767225600000,
        requests = [(1767225600000, js ''golang'', 5)], classified = [js ''golang''] \<rparr>)"
proof -
  have j: "joinValues [Some (js ''go''), None, Some (js ''lang'')] = js ''golang''"
    by (simp add: joinValues_def js_def)
  have r: "rateLimit sampleWorld (sampleState\<lparr>classified := classified sampleState @ [js ''golang'']\<rparr>)
      = \<lparr> clock = 1767225600000, lastRequestTime = 1767225600000, requests = [],
          classified = [js ''golang''] \<rparr>"
    by (simp add: rateLimit_def waitTime_def rateLimitDelay_def recordRequestTime_def
        sampleState_def Let_def)
  have f: "fetch sampleWorld (js ''golang'') 5 1767225600000 = Rejected (js ''fetch failed'')"
    by (simp add: sampleWorld_def sampleFetch_def js_def)
  have t: "\<not> includesStr (js ''fetch failed'') (js ''timeout'')"
    by (simp add: js_def)
  have s: "searchGitHub sampleWorld (js ''golang'') 5
        (sampleState\<lparr>classified := classified sampleState @ [js ''golang'']\<rparr>)
      = (Inl (NetworkError (js ''fetch failed'')),
         \<lparr> clock = 1767225600150, lastRequestTime = 1767225600000,
           requests = [(1767225600000, js ''golang'', 5)], classified = [js ''golang''] \<rparr>)"
    unfolding searchGitHub_def r
    by (simp add: searchTry_def f t Let_def) (simp add: sampleWorld_def)
  show ?thesis
    unfolding handleTechQueryTry_def failingEvent_def utterance_def research_def
    by (simp add: j golang_in_domain s Let_def)
qed

subsection \<open>The rate limiter, one caller at a time\<close>

lemma spaced_snoc:
  "spaced (ts @ [t]) \<longleftrightarrow> spaced ts \<and> (ts \<noteq> [] \<longrightarrow> last ts + rateLimitDelay \<le> t)"
  by (induction ts rule: spaced.induct) auto

lemma rateLimit_spacing:
  "lastRequestTime st + rateLimitDelay \<le> lastRequestTime (rateLimit w st)
   \<and> lastRequestTime (rateLimit w st) = clock (rateLimit w st)"
  by (simp add: rateLimit_def waitTime_def recordRequestTime_def sleep_def Let_def)

lemma searchTry_lastRequestTime:
  "lastRequestTime (snd (searchTry w technology n st)) = lastRequestTime st"
  by (simp add: searchTry_def Let_def split: fetch_outcome.splits json_outcome.splits option.splits)

lemma searchGitHub_snd:
  "snd (searchGitHub w technology n st) = snd (searchTry w technology n (rateLimit w st))"
  by (simp add: searchGitHub_def split: prod.splits sum.splits)

lemma searchGitHub_inv:
  assumes "limiterInv st"
  shows "limiterInv (snd (searchGitHub w technology n st))"
proof -
  let ?st' = "snd (searchGitHub w technology n st)"
  have r: "requests ?st' = requests st @ [(clock (rateLimit w st), technology, n)]"
    by (rule searchGitHub_requests)
  have l: "lastRequestTime ?st' = clock (rateLimit w st)"
    using rateLimit_spacing [of st w] by (simp add: searchGitHub_snd searchTry_lastRequestTime)
  have g: "lastRequestTime st + rateLimitDelay \<le> clock (rateLimit w st)"
    using rateLimit_spacing [of st w] by simp
  have "spaced (map fst (requests st) @ [clock (rateLimit w st)])"
    unfolding spaced_snoc using assms g by (auto simp: limiterInv_def last_map)
  then show ?thesis by (simp add: limiterInv_def r l)
qed

lemma handleTechQuery_inv:
  assumes "limiterInv st"
  shows "limiterInv (snd (handleTechQuery w agent event env st))"
proof -
  have c: "\<And>x. limiterInv (st\<lparr>classified := x\<rparr>)" using assms by (simp add: limiterInv_def)
  have s: "snd (handleTechQuery w agent event env st) = snd (handleTechQueryTry w agent event env st)"
    by (simp add: handleTechQuery_def split: prod.splits sum.splits)
  have "limiterInv (snd (research w agent env ts st))" for ts
  proof (cases "tokenValues ts")
    case (Inl e)
    with assms show ?thesis by (simp add: research_def)
  next
    case (Inr vs)
    show ?thesis
    proof (cases "isTechQuery w (joinValues vs)")
      case False
      with Inr c show ?thesis by (simp add: research_def Let_def)
    next
      case True
      have "snd (research w agent env ts st)
          = snd (searchGitHub w (joinValues vs) 5 (st\<lparr>classified := classified st @ [joinValues vs]\<rparr>))"
        using Inr True by (simp add: research_def Let_def split: prod.splits sum.splits)
      with searchGitHub_inv [OF c] show ?thesis by simp
    qed
  qed
  with assms s show ?thesis
    by (simp add: handleTechQueryTry_def split: tokens_field.splits)
qed

lemma processEvents_inv:
  "limiterInv st \<Longrightarrow> limiterInv (snd (processEvents w agent env es acc st))"
proof (induction es arbitrary: acc st)
  case Nil
  then show ?case by simp
next
  case (Cons e es)
  have "limiterInv (snd (processEvent w agent env e st))"
    using Cons.prems handleTechQuery_inv [OF Cons.prems, of w agent e env]
    by (auto simp: processEvent_def split: prod.splits)
  with Cons.IH show ?case by (auto split: prod.splits)
qed

lemma sequential_requests_spaced:
  "limiterInv st \<Longrightarrow> spaced (map fst (requests (snd (processEnvelope w agent env st))))"
proof -
  assume "limiterInv st"
  then have "limiterInv (snd (processEvents w agent env (events env) [] st))"
    by (rule processEvents_inv)
  then show ?thesis by (auto simp: processEnvelope_def limiterInv_def split: prod.splits)
qed

text \<open>One call of the event-loop model, undisturbed, is \<open>rateLimit\<close>.\<close>

lemma run_alone_no_wait:
  assumes "waitTime (clock st) (lastRequestTime st) \<le> 0"
  shows "run [Enter 0] \<lparr> shared = st, calls = [NotStarted] \<rparr>
         = Some \<lparr> shared = rateLimit w st, calls = [Issued (clock (rateLimit w st))] \<rparr>"
  using assms by (simp add: rateLimit_def recordRequestTime_def Let_def)

lemma run_alone_wait:
  assumes "waitTime (clock st) (lastRequestTime st) = wt" and "0 < wt"
  shows "run [Enter 0, Tick (nat wt + timerLate w (clock st + wt)), Wake 0]
           \<lparr> shared = st, calls = [NotStarted] \<rparr>
         = Some \<lparr> shared = rateLimit w st, calls = [Issued (clock (rateLimit w st))] \<rparr>"
  using assms by (simp add: rateLimit_def recordRequestTime_def sleep_def Let_def)

lemma cooking_rejected:
  "processEvents sampleWorld serverAgent env [cookingEvent] [] st
   = ([reply serverAgent env notTechQuery],
      st\<lparr>classified := classified st @ [js ''cooking recipes'']\<rparr>)"
proof -
  have j: "joinValues [Some (js ''cooking recipes'')] = js ''cooking recipes''"
    by (simp add: joinValues_def)
  have h: "handleTechQuery sampleWorld serverAgent cookingEvent env st
      = (reply serverAgent env notTechQuery,
         st\<lparr>classified := classified st @ [js ''cooking recipes'']\<rparr>)"
    unfolding handleTechQuery_def handleTechQueryTry_def research_def cookingEvent_def utterance_def
    by (simp add: j cooking_out_of_domain Let_def)
  have a: "addressedToMe serverAgent cookingEvent" "isUtteranceEvent cookingEvent"
    by (simp_all add: addressedToMe_def isUtteranceEvent_def cookingEvent_def utterance_def)
  show ?thesis by (simp add: processEvent_def a h)
qed

lemma malformed_apology:
  "processEvents w serverAgent env [malformedEvent] [] st
   = ([reply serverAgent env apology], st)"
proof -
  have h: "handleTechQuery w serverAgent malformedEvent env st
      = (reply serverAgent env apology, st)"
    unfolding handleTechQuery_def handleTechQueryTry_def research_def malformedEvent_def utterance_def
    by simp
  have a: "addressedToMe serverAgent malformedEvent" "isUtteranceEvent malformedEvent"
    by (simp_all add: addressedToMe_def isUtteranceEvent_def malformedEvent_def utterance_def)
  show ?thesis by (simp add: processEvent_def a h)
qed

lemma recent_days: "daysAgo sampleWorld 1767225600000 recentRepo = Some 12"
  by (simp add: daysAgo_def recentRepo_def sampleWorld_def sampleDates_def js_def)

lemma stale_days: "daysAgo sampleWorld 1767225600000 staleRepo = Some 214"
  by (simp add: daysAgo_def staleRepo_def sampleWorld_def sampleDates_def js_def)

section \<open>The claims\<close>

text \<open>
  C1. For every inbound envelope, the envelope that \<open>processEnvelope\<close> returns carries the
  conversation id and the schema version of the inbound envelope.
\<close>

theorem processEnvelope_preserves_ids:
  "conversation_id (fst (processEnvelope w agent inEnvelope st)) = conversation_id inEnvelope
   \<and> schema_version (fst (processEnvelope w agent inEnvelope st)) = schema_version inEnvelope"
  by (simp add: processEnvelope_def split: prod.splits)

text \<open>
  C2. When the \<open>try\<close> block of the handler raises any error at one addressed utterance
  event, the handler returns the apology utterance, and the outbound envelope holds the
  replies to the events before it, the apology, and the replies to the events after it:
  the failure aborts nothing.
\<close>

theorem failure_is_isolated:
  assumes "events inEnvelope = before @ event # after"
    and "addressedToMe agent event" and "isUtteranceEvent event"
    and "processEvents w agent inEnvelope before [] st = (rs1, st1)"
    and "handleTechQueryTry w agent event inEnvelope st1 = (Inl err, st2)"
    and "processEvents w agent inEnvelope after [] st2 = (rs2, st3)"
  shows "handleTechQuery w agent event inEnvelope st1 = (reply agent inEnvelope apology, st2)
         \<and> events (fst (processEnvelope w agent inEnvelope st))
             = rs1 @ reply agent inEnvelope apology # rs2
         \<and> snd (processEnvelope w agent inEnvelope st) = st3"
proof -
  have h: "handleTechQuery w agent event inEnvelope st1 = (reply agent inEnvelope apology, st2)"
    using assms(5) by (rule handleTechQuery_failure)
  with assms(2,3) have pe: "processEvent w agent inEnvelope event st1
      = ([reply agent inEnvelope apology], st2)"
    by (simp add: processEvent_def)
  have "processEvents w agent inEnvelope (event # after) [] st1
      = ([reply agent inEnvelope apology] @ rs2, st3)"
    using pe assms(6) by (rule processEvents_Cons)
  with assms(4) have "processEvents w agent inEnvelope (before @ event # after) [] st
      = (rs1 @ [reply agent inEnvelope apology] @ rs2, st3)"
    by (rule processEvents_append)
  with assms(1) h show ?thesis by (simp add: processEnvelope_def)
qed

theorem failure_is_isolated_witness:
  "events (fst (processEnvelope sampleWorld serverAgent
             (sampleEnvelope [malformedEvent, failingEvent, cookingEvent]) sampleState))
   = [reply serverAgent (sampleEnvelope [malformedEvent, failingEvent, cookingEvent]) apology,
      reply serverAgent (sampleEnvelope [malformedEvent, failingEvent, cookingEvent]) apology,
      reply serverAgent (sampleEnvelope [malformedEvent, failingEvent, cookingEvent]) notTechQuery]"
proof -
  let ?env = "sampleEnvelope [malformedEvent, failingEvent, cookingEvent]"
  have e: "events ?env = [malformedEvent] @ failingEvent # [cookingEvent]"
    by (simp add: sampleEnvelope_def)
  have a: "addressedToMe serverAgent failingEvent" "isUtteranceEvent failingEvent"
    by (simp_all add: addressedToMe_def isUtteranceEvent_def failingEvent_def utterance_def)
  from failure_is_isolated [OF e a malformed_apology golang_fails cooking_rejected]
  show ?thesis by simp
qed

text \<open>
  C3. The adoption level is Very High iff the total count exceeds 50000, else High iff it
  exceeds 10000, else Moderate iff it exceeds 1000, else Emerging iff it exceeds 100, else
  Niche; 50000 gives High and 50001 gives Very High; and this is the level that the report
  of a non-empty result shows.
\<close>

theorem adoption_level_thresholds:
  "(adoptionLevel t = VeryHigh \<longleftrightarrow> t > 50000)
   \<and> (adoptionLevel t = High \<longleftrightarrow> \<not> t > 50000 \<and> t > 10000)
   \<and> (adoptionLevel t = Moderate \<longleftrightarrow> \<not> t > 50000 \<and> \<not> t > 10000 \<and> t > 1000)
   \<and> (adoptionLevel t = Emerging \<longleftrightarrow>
         \<not> t > 50000 \<and> \<not> t > 10000 \<and> \<not> t > 1000 \<and> t > 100)
   \<and> (adoptionLevel t = Niche \<longleftrightarrow>
         \<not> t > 50000 \<and> \<not> t > 10000 \<and> \<not> t > 1000 \<and> \<not> t > 100)
   \<and> adoptionLevel 50000 = High \<and> adoptionLevel 50001 = VeryHigh
   \<and> (its \<noteq> [] \<longrightarrow>
        adoption (trendMetrics t its) = adoptionLevel t
        \<and> (\<exists>pre post. analyzeTechnologyTrends w t its
              = pre @ js '' Adoption level: '' @ adoptionText (adoptionLevel t) @ post))"
proof -
  have r: "its \<noteq> [] \<longrightarrow>
        adoption (trendMetrics t its) = adoptionLevel t
        \<and> (\<exists>pre post. analyzeTechnologyTrends w t its
              = pre @ js '' Adoption level: '' @ adoptionText (adoptionLevel t) @ post)"
  proof
    assume ne: "its \<noteq> []"
    have a: "adoption (trendMetrics t its) = adoptionLevel t"
      by (simp add: trendMetrics_def Let_def)
    have "analyzeTechnologyTrends w t its =
        (js ''**Technology Adoption Analysis:**'' @ nl
         @ bullet @ js '' Total repositories: '' @ toLocaleString w t @ nl @ bullet)
        @ js '' Adoption level: '' @ adoptionText (adoptionLevel t)
        @ (nl @ bullet @ js '' Average stars (top repos): ''
           @ toLocaleString w (avgStars (trendMetrics t its)) @ nl
           @ bullet @ js '' Total community engagement: ''
           @ toLocaleString w (totalStars (trendMetrics t its))
           @ js '' stars, '' @ toLocaleString w (totalForks (trendMetrics t its)) @ js '' forks'' @ nl
           @ (if length (languages (trendMetrics t its)) > 0
              then bullet @ js '' Popular languages: ''
                   @ join (js '', '') (map languageEntry (topLanguages (languages (trendMetrics t its)))) @ nl
              else [])
           @ nl)"
      using ne by (simp add: analyzeTechnologyTrends_def renderTrends_def a)
    then have "\<exists>pre post. analyzeTechnologyTrends w t its
              = pre @ js '' Adoption level: '' @ adoptionText (adoptionLevel t) @ post"
      by blast
    with a show "adoption (trendMetrics t its) = adoptionLevel t
        \<and> (\<exists>pre post. analyzeTechnologyTrends w t its
              = pre @ js '' Adoption level: '' @ adoptionText (adoptionLevel t) @ post)"
      by simp
  qed
  have l: "(adoptionLevel t = VeryHigh \<longleftrightarrow> t > 50000)
   \<and> (adoptionLevel t = High \<longleftrightarrow> \<not> t > 50000 \<and> t > 10000)
   \<and> (adoptionLevel t = Moderate \<longleftrightarrow> \<not> t > 50000 \<and> \<not> t > 10000 \<and> t > 1000)
   \<and> (adoptionLevel t = Emerging \<longleftrightarrow>
         \<not> t > 50000 \<and> \<not> t > 10000 \<and> \<not> t > 1000 \<and> t > 100)
   \<and> (adoptionLevel t = Niche \<longleftrightarrow>
         \<not> t > 50000 \<and> \<not> t > 10000 \<and> \<not> t > 1000 \<and> \<not> t > 100)
   \<and> adoptionLevel 50000 = High \<and> adoptionLevel 50001 = VeryHigh"
    by (simp add: adoptionLevel_def)
  from l r show ?thesis by blast
qed

theorem adoption_level_thresholds_witness:
  "sampleRepos \<noteq> []
   \<and> adoption (trendMetrics 50000 sampleRepos) = High
   \<and> adoption (trendMetrics 50001 sampleRepos) = VeryHigh
   \<and> (\<exists>pre post. analyzeTechnologyTrends sampleWorld 50000 sampleRepos
         = pre @ js '' Adoption level: '' @ js ''High'' @ post)"
proof -
  have ne: "sampleRepos \<noteq> []" by (simp add: sampleRepos_def)
  from adoption_level_thresholds [of 50000 sampleRepos sampleWorld]
       adoption_level_thresholds [of 50001 sampleRepos sampleWorld] ne
  show ?thesis by simp
qed

text \<open>
  C4. For a non-empty item list the two counters of the loop are the numbers of items
  updated within 30 and within 90 days, every item of the first kind is of the second,
  and the level shown is Very Active iff the first fraction exceeds 0.7, else Active iff
  the second exceeds 0.5, else Moderate iff it exceeds 0.3, else Low; a list with exactly
  70% of its items within 30 days is not Very Active.
\<close>

theorem activity_level_thresholds:
  assumes "repositories \<noteq> []"
  shows "(let n = length repositories;
              v = length (filter (\<lambda>repo. withinDays 30 (daysAgo w now repo)) repositories);
              r = length (filter (\<lambda>repo. withinDays 90 (daysAgo w now repo)) repositories);
              level = activityLevel r v n
          in countUpdates w now repositories (0, 0) = (r, v)
             \<and> (\<forall>repo \<in> set repositories.
                   withinDays 30 (daysAgo w now repo) \<longrightarrow> withinDays 90 (daysAgo w now repo))
             \<and> v \<le> r
             \<and> (level = VeryActive \<longleftrightarrow> (of_nat v / of_nat n :: rat) > 7 / 10)
             \<and> (level = Active \<longleftrightarrow>
                  \<not> (of_nat v / of_nat n :: rat) > 7 / 10 \<and> (of_nat r / of_nat n :: rat) > 5 / 10)
             \<and> (level = ModerateActivity \<longleftrightarrow>
                  \<not> (of_nat v / of_nat n :: rat) > 7 / 10 \<and> \<not> (of_nat r / of_nat n :: rat) > 5 / 10
                  \<and> (of_nat r / of_nat n :: rat) > 3 / 10)
             \<and> (level = Low \<longleftrightarrow>
                  \<not> (of_nat v / of_nat n :: rat) > 7 / 10 \<and> \<not> (of_nat r / of_nat n :: rat) > 5 / 10
                  \<and> \<not> (of_nat r / of_nat n :: rat) > 3 / 10)
             \<and> (10 * v = 7 * n \<longrightarrow> level \<noteq> VeryActive)
             \<and> (\<exists>pre post. analyzeRecentActivity w now repositories
                   = pre @ js '' Overall activity level: '' @ activityText level @ post))"
proof -
  define n where "n = length repositories"
  define v where "v = length (filter (\<lambda>repo. withinDays 30 (daysAgo w now repo)) repositories)"
  define r where "r = length (filter (\<lambda>repo. withinDays 90 (daysAgo w now repo)) repositories)"
  define level where "level = activityLevel r v n"
  have npos: "0 < n" using assms by (simp add: n_def)
  have c: "countUpdates w now repositories (0, 0) = (r, v)"
    by (simp add: countUpdates_counts r_def v_def)
  have nest: "\<forall>repo \<in> set repositories.
      withinDays 30 (daysAgo w now repo) \<longrightarrow> withinDays 90 (daysAgo w now repo)"
    by (simp add: withinDays_nested)
  have vr: "v \<le> r" unfolding v_def r_def
    by (rule filter_length_mono) (rule withinDays_nested)
  have l1: "level = VeryActive \<longleftrightarrow> (of_nat v / of_nat n :: rat) > 7 / 10"
    by (simp add: level_def activityLevel_def Let_def)
  have l2: "level = Active \<longleftrightarrow>
      \<not> (of_nat v / of_nat n :: rat) > 7 / 10 \<and> (of_nat r / of_nat n :: rat) > 5 / 10"
    by (simp add: level_def activityLevel_def Let_def)
  have l3: "level = ModerateActivity \<longleftrightarrow>
      \<not> (of_nat v / of_nat n :: rat) > 7 / 10 \<and> \<not> (of_nat r / of_nat n :: rat) > 5 / 10
      \<and> (of_nat r / of_nat n :: rat) > 3 / 10"
    by (simp add: level_def activityLevel_def Let_def)
  have l4: "level = Low \<longleftrightarrow>
      \<not> (of_nat v / of_nat n :: rat) > 7 / 10 \<and> \<not> (of_nat r / of_nat n :: rat) > 5 / 10
      \<and> \<not> (of_nat r / of_nat n :: rat) > 3 / 10"
    by (simp add: level_def activityLevel_def Let_def)
  have b: "10 * v = 7 * n \<longrightarrow> level \<noteq> VeryActive"
  proof
    assume e: "10 * v = 7 * n"
    then have "(of_nat (10 * v) :: rat) = of_nat (7 * n)" by simp
    then have "(of_nat v / of_nat n :: rat) = 7 / 10"
      using npos by (simp add: field_simps)
    with l1 show "level \<noteq> VeryActive" by simp
  qed
  have t: "\<exists>pre post. analyzeRecentActivity w now repositories
      = pre @ js '' Overall activity level: '' @ activityText level @ post"
  proof -
    have "analyzeRecentActivity w now repositories =
        (js ''**Development Activity:**'' @ nl
          @ bullet @ js '' Recently updated (30 days): '' @ showNat v
            @ js ''/'' @ showNat n @ js '' repositories'' @ nl
          @ bullet @ js '' Active projects (90 days): '' @ showNat r
            @ js ''/'' @ showNat n @ js '' repositories'' @ nl
          @ bullet) @ js '' Overall activity level: '' @ activityText level
          @ (nl @ bullet @ js '' Community health: ''
            @ (if level \<in> {VeryActive, Active} then js ''Strong'' else js ''Moderate'')
            @ js '' developer engagement'' @ nl @ nl)"
      using assms c by (simp add: analyzeRecentActivity_def Let_def n_def level_def)
    then show ?thesis by blast
  qed
  from c nest vr l1 l2 l3 l4 b t show ?thesis
    unfolding Let_def n_def [symmetric] v_def [symmetric] r_def [symmetric] level_def [symmetric]
    by blast
qed

theorem activity_level_thresholds_witness:
  "replicate 7 recentRepo @ replicate 3 staleRepo \<noteq> []
   \<and> countUpdates sampleWorld 1767225600000 (replicate 7 recentRepo @ replicate 3 staleRepo) (0, 0)
       = (7, 7)
   \<and> activityLevel 7 7 10 = Active
   \<and> (\<exists>pre post. analyzeRecentActivity sampleWorld 1767225600000
                     (replicate 7 recentRepo @ replicate 3 staleRepo)
         = pre @ js '' Overall activity level: '' @ js ''Active'' @ post)"
proof -
  have ne: "replicate 7 recentRepo @ replicate 3 staleRepo \<noteq> []" by simp
  have l: "activityLevel 7 7 10 = Active" by (simp add: activityLevel_def)
  from activity_level_thresholds [OF ne, of sampleWorld 1767225600000] l
  show ?thesis
    by (simp add: recent_days stale_days withinDays_def Let_def)
qed

text \<open>
  C5. Two callers that enter \<open>_rateLimit\<close> 500 ms and 600 ms after the last recorded
  request both compute their wait from that record, wake at the same time 2000 ms after
  it, and issue their requests 0 ms apart: the minimum interval does not hold between
  concurrent callers.
\<close>

theorem rateLimit_race:
  "run [Enter 0, Tick 100, Enter 1, Tick 1400, Wake 0, Wake 1]
     \<lparr> shared = \<lparr> clock = 1000500, lastRequestTime = 1000000, requests = [], classified = [] \<rparr>,
       calls = [NotStarted, NotStarted] \<rparr>
   = Some \<lparr> shared = \<lparr> clock = 1002000, lastRequestTime = 1002000, requests = [], classified = [] \<rparr>,
            calls = [Issued 1002000, Issued 1002000] \<rparr>"
  by (simp add: waitTime_def rateLimitDelay_def recordRequestTime_def)

text \<open>
  C6. An utterance whose dialog features hold no text tokens is answered with exactly the
  prompt for a technology name; the state is unchanged, so neither the classifier nor the
  search client has been invoked.
\<close>

theorem no_tokens_prompt:
  assumes "tokens event = TokensAbsent \<or> tokens event = TokensArray []
           \<or> tokens event = TokensNonArray 0"
  shows "handleTechQuery w agent event env st = (reply agent env needTechnology, st)
         \<and> classified (snd (handleTechQuery w agent event env st)) = classified st
         \<and> requests (snd (handleTechQuery w agent event env st)) = requests st
         \<and> (addressedToMe agent event \<and> isUtteranceEvent event \<longrightarrow>
              processEvent w agent env event st = ([reply agent env needTechnology], st))"
proof -
  from assms have h: "handleTechQuery w agent event env st = (reply agent env needTechnology, st)"
    by (auto simp: handleTechQuery_def handleTechQueryTry_def)
  then show ?thesis by (simp add: processEvent_def)
qed

theorem no_tokens_prompt_witness:
  "processEvent sampleWorld serverAgent (sampleEnvelope [utterance None (TokensArray [])])
     (utterance None (TokensArray [])) sampleState
   = ([reply serverAgent (sampleEnvelope [utterance None (TokensArray [])]) needTechnology],
      sampleState)"
proof -
  have t: "tokens (utterance None (TokensArray [])) = TokensAbsent
           \<or> tokens (utterance None (TokensArray [])) = TokensArray []
           \<or> tokens (utterance None (TokensArray [])) = TokensNonArray 0"
    by (simp add: utterance_def)
  have a: "addressedToMe serverAgent (utterance None (TokensArray []))"
    "isUtteranceEvent (utterance None (TokensArray []))"
    by (simp_all add: addressedToMe_def isUtteranceEvent_def utterance_def)
  from no_tokens_prompt [OF t, of sampleWorld serverAgent
      "sampleEnvelope [utterance None (TokensArray [])]" sampleState] a
  show ?thesis by simp
qed

text \<open>
  C7. An utterance whose extracted text the classifier rejects is answered with the
  domain-mismatch prompt and issues no search; every search that the handler issues, for
  any event, has a query that the classifier accepts.
\<close>

theorem out_of_domain_never_searches:
  "(tokens event = TokensArray ts \<and> ts \<noteq> [] \<and> tokenValues ts = Inr vs
      \<and> \<not> isTechQuery w (joinValues vs) \<longrightarrow>
      handleTechQuery w agent event env st
        = (reply agent env notTechQuery, st\<lparr>classified := classified st @ [joinValues vs]\<rparr>)
      \<and> requests (snd (handleTechQuery w agent event env st)) = requests st)
   \<and> (\<exists>new. requests (snd (handleTechQuery w agent event env st)) = requests st @ new
         \<and> (\<forall>r \<in> set new. isTechQuery w (fst (snd r))))"
proof (intro conjI impI)
  assume a: "tokens event = TokensArray ts \<and> ts \<noteq> [] \<and> tokenValues ts = Inr vs
      \<and> \<not> isTechQuery w (joinValues vs)"
  then show "handleTechQuery w agent event env st
        = (reply agent env notTechQuery, st\<lparr>classified := classified st @ [joinValues vs]\<rparr>)"
    by (simp add: handleTechQuery_def handleTechQueryTry_def research_def Let_def)
  then show "requests (snd (handleTechQuery w agent event env st)) = requests st" by simp
next
  show "\<exists>new. requests (snd (handleTechQuery w agent event env st)) = requests st @ new
         \<and> (\<forall>r \<in> set new. isTechQuery w (fst (snd r)))"
    by (rule handleTechQuery_requests)
qed

theorem out_of_domain_never_searches_witness:
  "handleTechQuery sampleWorld serverAgent cookingEvent (sampleEnvelope [cookingEvent]) sampleState
     = (reply serverAgent (sampleEnvelope [cookingEvent]) notTechQuery,
        sampleState\<lparr>classified := classified sampleState @ [js ''cooking recipes'']\<rparr>)
   \<and> requests (snd (handleTechQuery sampleWorld serverAgent cookingEvent
                       (sampleEnvelope [cookingEvent]) sampleState)) = requests sampleState"
proof -
  have h: "tokens cookingEvent = TokensArray [Token (Some (js ''cooking recipes''))]
      \<and> [Token (Some (js ''cooking recipes''))] \<noteq> []
      \<and> tokenValues [Token (Some (js ''cooking recipes''))] = Inr [Some (js ''cooking recipes'')]
      \<and> \<not> isTechQuery sampleWorld (joinValues [Some (js ''cooking recipes'')])"
    using cooking_out_of_domain by (simp add: cookingEvent_def utterance_def joinValues_def)
  from out_of_domain_never_searches [of cookingEvent "[Token (Some (js ''cooking recipes''))]"
      "[Some (js ''cooking recipes'')]" sampleWorld serverAgent "sampleEnvelope [cookingEvent]"
      sampleState] h
  show ?thesis by (simp add: joinValues_def)
qed

text \<open>
  C8. A successful search whose answer holds no items is no error: its result is exactly
  the message that no repositories were found, and the adoption and activity sections of
  an empty item list are empty.
\<close>

theorem empty_result_message:
  assumes "fetch w technology maxResults (clock (rateLimit w st)) = Response True status (Json data)"
    and "items data = None \<or> items data = Some []"
  shows "fst (searchGitHub w technology maxResults st) = Inr (noRepositories technology)
         \<and> analyzeTechnologyTrends w (total_count data) [] = []
         \<and> analyzeRecentActivity w now [] = []"
  using assms
  by (auto simp: searchGitHub_def searchTry_def Let_def analyzeTechnologyTrends_def
      analyzeRecentActivity_def)

theorem empty_result_message_witness:
  "fst (searchGitHub sampleWorld (js ''kotlin'') 5 sampleState)
     = Inr (noRepositories (js ''kotlin''))"
proof -
  have f: "fetch sampleWorld (js ''kotlin'') 5 (clock (rateLimit sampleWorld sampleState))
      = Response True 200 (Json \<lparr> total_count = 0, items = Some [] \<rparr>)"
    by (simp add: sampleWorld_def sampleFetch_def js_def)
  have i: "items \<lparr> total_count = 0, items = Some [] \<rparr> = None
           \<or> items \<lparr> total_count = 0, items = Some [] \<rparr> = Some []"
    by simp
  from empty_result_message [OF f i] show ?thesis by simp
qed

text \<open>
  C9. For three items with star counts 100, 200, 300 and languages Go, Go, Rust and a
  total count of 12000, the analysis gives adoption level High, average stars 200 and the
  language ranking Go (2), Rust (1), and renders them so.
\<close>

theorem synthetic_trend_report:
  assumes "map stargazers_count its = [100, 200, 300]"
    and "map language its = [Some (js ''Go''), Some (js ''Go''), Some (js ''Rust'')]"
  shows "adoption (trendMetrics 12000 its) = High
         \<and> avgStars (trendMetrics 12000 its) = 200
         \<and> map languageEntry (topLanguages (languages (trendMetrics 12000 its)))
             = [js ''Go (2)'', js ''Rust (1)'']
         \<and> analyzeTechnologyTrends w 12000 its =
             js ''**Technology Adoption Analysis:**'' @ nl
             @ bullet @ js '' Total repositories: '' @ toLocaleString w 12000 @ nl
             @ bullet @ js '' Adoption level: High'' @ nl
             @ bullet @ js '' Average stars (top repos): '' @ toLocaleString w 200 @ nl
             @ bullet @ js '' Total community engagement: '' @ toLocaleString w 600
               @ js '' stars, '' @ toLocaleString w (sum_list (map forks_count its))
               @ js '' forks'' @ nl
             @ bullet @ js '' Popular languages: Go (2), Rust (1)'' @ nl @ nl"
proof -
  from assms(1) obtain a b c where its: "its = [a, b, c]"
    by (auto simp: map_eq_Cons_conv)
  from assms its have f: "stargazers_count a = 100" "stargazers_count b = 200"
    "stargazers_count c = 300" "language a = Some (js ''Go'')" "language b = Some (js ''Go'')"
    "language c = Some (js ''Rust'')" by simp_all
  have l: "countLanguages [] its = [(js ''Go'', 2), (js ''Rust'', 1)]"
    by (simp add: its f go_rust)
  have a1: "adoption (trendMetrics 12000 its) = High"
    by (simp add: trendMetrics_def adoptionLevel_def Let_def)
  have a2: "avgStars (trendMetrics 12000 its) = 200"
    by (simp add: trendMetrics_def its f math_round_div_def Let_def)
  have a3: "map languageEntry (topLanguages (languages (trendMetrics 12000 its)))
             = [js ''Go (2)'', js ''Rust (1)'']"
    by (simp add: trendMetrics_def l topLanguages_def languageEntry_def showNat_digit js_def Let_def)
  have ts: "totalStars (trendMetrics 12000 its) = 600"
    by (simp add: trendMetrics_def its f Let_def)
  have tf: "totalForks (trendMetrics 12000 its) = sum_list (map forks_count its)"
    by (simp add: trendMetrics_def its Let_def)
  have ln: "languages (trendMetrics 12000 its) = [(js ''Go'', 2), (js ''Rust'', 1)]"
    by (simp add: trendMetrics_def l Let_def)
  have a4: "analyzeTechnologyTrends w 12000 its =
             js ''**Technology Adoption Analysis:**'' @ nl
             @ bullet @ js '' Total repositories: '' @ toLocaleString w 12000 @ nl
             @ bullet @ js '' Adoption level: High'' @ nl
             @ bullet @ js '' Average stars (top repos): '' @ toLocaleString w 200 @ nl
             @ bullet @ js '' Total community engagement: '' @ toLocaleString w 600
               @ js '' stars, '' @ toLocaleString w (sum_list (map forks_count its))
               @ js '' forks'' @ nl
             @ bullet @ js '' Popular languages: Go (2), Rust (1)'' @ nl @ nl"
  proof -
    have ne: "its \<noteq> []" by (simp add: its)
    show ?thesis
      unfolding analyzeTechnologyTrends_def renderTrends_def a1 a2 ts tf
      using a3 ne by (simp add: ln js_def)
  qed
  from a1 a2 a3 a4 show ?thesis by blast
qed

theorem synthetic_trend_report_witness:
  "adoption (trendMetrics 12000 sampleRepos) = High
   \<and> avgStars (trendMetrics 12000 sampleRepos) = 200
   \<and> map languageEntry (topLanguages (languages (trendMetrics 12000 sampleRepos)))
       = [js ''Go (2)'', js ''Rust (1)'']"
proof -
  have h1: "map stargazers_count sampleRepos = [100, 200, 300]"
    by (simp add: sampleRepos_def)
  have h2: "map language sampleRepos = [Some (js ''Go''), Some (js ''Go''), Some (js ''Rust'')]"
    by (simp add: sampleRepos_def)
  from synthetic_trend_report [OF h1 h2, of sampleWorld] show ?thesis by blast
qed

text \<open>
  C10. An event is addressed to the agent iff it has no addressee, or the addressee's
  speaker URI is the agent's, or the addressee's service URL is the agent's. Every event
  is routed by that test: an utterance is answered exactly when it is addressed to the
  agent, a capability request gets the agent's manifest exactly when it is addressed to
  the agent, both also when only the service URL names the agent and the speaker URI names
  another; an event of any other type, and any event not addressed to the agent, gets no
  reply and leaves the state as it was.
\<close>

theorem addressedToMe_routing:
  "(addressedToMe agent event \<longleftrightarrow>
      to event = None
      \<or> (\<exists>a. to event = Some a \<and> to_speakerUri a = Some (speakerUri agent))
      \<or> (\<exists>a. to event = Some a \<and> to_serviceUrl a = Some (serviceUrl agent)))
   \<and> (isUtteranceEvent event \<longrightarrow>
        fst (processEvent w agent env event st) =
          (if addressedToMe agent event then [fst (handleTechQuery w agent event env st)] else []))
   \<and> (isUtteranceEvent event \<and> to event = Some a \<and> to_serviceUrl a = Some (serviceUrl agent)
        \<and> to_speakerUri a = Some other \<and> other \<noteq> speakerUri agent \<longrightarrow>
        (\<exists>msg. fst (processEvent w agent env event st)
                  = [TextUtterance (speakerUri agent) msg (sender_speakerUri (sender env))]))
   \<and> (eventType event = js ''getManifests'' \<longrightarrow>
        processEvent w agent env event st =
          (if addressedToMe agent event
           then [PublishManifests (sender_speakerUri (sender env)) [agent]] else [], st))
   \<and> (eventType event = js ''getManifests'' \<and> to event = Some a
        \<and> to_serviceUrl a = Some (serviceUrl agent)
        \<and> to_speakerUri a = Some other \<and> other \<noteq> speakerUri agent \<longrightarrow>
        processEvent w agent env event st =
          ([PublishManifests (sender_speakerUri (sender env)) [agent]], st))
   \<and> (\<not> isUtteranceEvent event \<and> eventType event \<noteq> js ''getManifests'' \<longrightarrow>
        processEvent w agent env event st = ([], st))
   \<and> (\<not> addressedToMe agent event \<longrightarrow> processEvent w agent env event st = ([], st))
   \<and> (fst (processEvent w agent env event st) \<noteq> [] \<longrightarrow>
        addressedToMe agent event
        \<and> (isUtteranceEvent event \<or> eventType event = js ''getManifests''))"
proof (intro conjI impI)
  show "addressedToMe agent event \<longleftrightarrow>
      to event = None
      \<or> (\<exists>a. to event = Some a \<and> to_speakerUri a = Some (speakerUri agent))
      \<or> (\<exists>a. to event = Some a \<and> to_serviceUrl a = Some (serviceUrl agent))"
    by (auto simp: addressedToMe_def split: option.splits)
next
  assume "isUtteranceEvent event"
  then show "fst (processEvent w agent env event st) =
          (if addressedToMe agent event then [fst (handleTechQuery w agent event env st)] else [])"
    by (simp add: processEvent_def isUtteranceEvent_def js_def split: prod.splits)
next
  assume a: "isUtteranceEvent event \<and> to event = Some a \<and> to_serviceUrl a = Some (serviceUrl agent)
        \<and> to_speakerUri a = Some other \<and> other \<noteq> speakerUri agent"
  then have ad: "addressedToMe agent event" by (simp add: addressedToMe_def)
  obtain msg where t: "fst (handleTechQuery w agent event env st) = reply agent env msg"
    using handleTechQuery_is_reply by blast
  from a ad t show "\<exists>msg. fst (processEvent w agent env event st)
                  = [TextUtterance (speakerUri agent) msg (sender_speakerUri (sender env))]"
    by (auto simp: processEvent_def reply_def split: prod.splits)
next
  assume g: "eventType event = js ''getManifests''"
  then have "\<not> isUtteranceEvent event"
    by (simp add: isUtteranceEvent_def getManifests_not_utterance)
  with g show "processEvent w agent env event st =
          (if addressedToMe agent event
           then [PublishManifests (sender_speakerUri (sender env)) [agent]] else [], st)"
    by (simp add: processEvent_def)
next
  assume a: "eventType event = js ''getManifests'' \<and> to event = Some a
        \<and> to_serviceUrl a = Some (serviceUrl agent)
        \<and> to_speakerUri a = Some other \<and> other \<noteq> speakerUri agent"
  then have ad: "addressedToMe agent event" by (simp add: addressedToMe_def)
  from a have "\<not> isUtteranceEvent event"
    by (simp add: isUtteranceEvent_def getManifests_not_utterance)
  with a ad show "processEvent w agent env event st =
          ([PublishManifests (sender_speakerUri (sender env)) [agent]], st)"
    by (simp add: processEvent_def)
next
  assume "\<not> isUtteranceEvent event \<and> eventType event \<noteq> js ''getManifests''"
  then show "processEvent w agent env event st = ([], st)"
    by (simp add: processEvent_def)
next
  assume "\<not> addressedToMe agent event"
  then show "processEvent w agent env event st = ([], st)"
    by (simp add: processEvent_def)
next
  assume n: "fst (processEvent w agent env event st) \<noteq> []"
  then show "addressedToMe agent event"
    by (auto simp: processEvent_def split: if_splits)
next
  assume n: "fst (processEvent w agent env event st) \<noteq> []"
  then show "isUtteranceEvent event \<or> eventType event = js ''getManifests''"
    by (auto simp: processEvent_def split: if_splits)
qed

theorem addressedToMe_routing_witness:
  "to_speakerUri otherAddress \<noteq> Some (speakerUri serverAgent)
   \<and> addressedToMe serverAgent (utterance (Some otherAddress) TokensAbsent)
   \<and> fst (processEvent sampleWorld serverAgent (sampleEnvelope [])
            (utterance (Some otherAddress) TokensAbsent) sampleState)
      = [reply serverAgent (sampleEnvelope []) needTechnology]
   \<and> processEvent sampleWorld serverAgent (sampleEnvelope [])
        (getManifests (Some otherAddress)) sampleState
      = ([PublishManifests (js ''tag:example.com,2025:user'') [serverAgent]], sampleState)
   \<and> \<not> addressedToMe serverAgent (getManifests (Some strangerAddress))
   \<and> processEvent sampleWorld serverAgent (sampleEnvelope [])
        (getManifests (Some strangerAddress)) sampleState = ([], sampleState)
   \<and> processEvent sampleWorld serverAgent (sampleEnvelope [])
        (utterance (Some strangerAddress) TokensAbsent) sampleState = ([], sampleState)"
proof -
  let ?e = "utterance (Some otherAddress) TokensAbsent"
  let ?g = "getManifests (Some otherAddress)"
  let ?h = "getManifests (Some strangerAddress)"
  let ?u = "utterance (Some strangerAddress) TokensAbsent"
  have u: "isUtteranceEvent ?e" by (simp add: isUtteranceEvent_def utterance_def)
  have t: "to ?e = Some otherAddress" "to ?g = Some otherAddress"
    by (simp_all add: utterance_def getManifests_def)
  have s: "to_serviceUrl otherAddress = Some (serviceUrl serverAgent)"
    by (simp add: otherAddress_def serverAgent_def createGitHubAgent_def)
  have h: "fst (handleTechQuery sampleWorld serverAgent ?e (sampleEnvelope []) sampleState)
      = reply serverAgent (sampleEnvelope []) needTechnology"
    by (simp add: handleTechQuery_def handleTechQueryTry_def utterance_def)
  have o: "to_speakerUri otherAddress = Some (js ''tag:example.com,2025:other-agent'')"
    "js ''tag:example.com,2025:other-agent'' \<noteq> speakerUri serverAgent"
    by (simp_all add: otherAddress_def serverAgent_def createGitHubAgent_def js_def)
  have g: "eventType ?g = js ''getManifests''" "eventType ?h = js ''getManifests''"
    by (simp_all add: getManifests_def)
  have x: "\<not> addressedToMe serverAgent ?h" "\<not> addressedToMe serverAgent ?u"
    by (simp_all add: addressedToMe_def getManifests_def utterance_def strangerAddress_def
        serverAgent_def createGitHubAgent_def js_def)
  have sp: "sender_speakerUri (sender (sampleEnvelope [])) = js ''tag:example.com,2025:user''"
    by (simp add: sampleEnvelope_def)
  from addressedToMe_routing [of serverAgent ?e sampleWorld "sampleEnvelope []" sampleState
      otherAddress "js ''tag:example.com,2025:other-agent''"] u t s h o
  have p1: "addressedToMe serverAgent ?e
     \<and> fst (processEvent sampleWorld serverAgent (sampleEnvelope []) ?e sampleState)
        = [reply serverAgent (sampleEnvelope []) needTechnology]"
    by auto
  from addressedToMe_routing [of serverAgent ?g sampleWorld "sampleEnvelope []" sampleState
      otherAddress "js ''tag:example.com,2025:other-agent''"] g t s o sp
  have p2: "processEvent sampleWorld serverAgent (sampleEnvelope []) ?g sampleState
      = ([PublishManifests (js ''tag:example.com,2025:user'') [serverAgent]], sampleState)"
    by simp
  from addressedToMe_routing [of serverAgent ?h sampleWorld "sampleEnvelope []" sampleState] x
  have p3: "processEvent sampleWorld serverAgent (sampleEnvelope []) ?h sampleState
      = ([], sampleState)"
    by simp
  from addressedToMe_routing [of serverAgent ?u sampleWorld "sampleEnvelope []" sampleState] x
  have p4: "processEvent sampleWorld serverAgent (sampleEnvelope []) ?u sampleState
      = ([], sampleState)"
    by simp
  from o p1 p2 x p3 p4 show ?thesis by simp
qed

end
